theory Spec2Isabelle
  imports Main "HOL-Library.AList"
begin

section \<open>JavaScript values\<close>

text \<open>
  The adapter of \<^verbatim>\<open>packages/dgraph/src/index.ts\<close> handles untyped data: every
  transport call is \<^verbatim>\<open>c.run<any>\<close>. A value is therefore a JSON value, extended with
  \<^verbatim>\<open>undefined\<close> and with the \<^verbatim>\<open>Date\<close> objects a formatter may create. An object is
  the list of its own enumerable properties in insertion order (JavaScript lists
  integer-like keys first; nothing in the adapter depends on the order). Numbers are carried
  around and never computed with; only the test against zero of a truthiness check reads
  them. Strings are byte strings.
\<close>

datatype jsval =
    Undefined
  | Null
  | Bool bool
  | Num int
  | Str string
  | DateV string
  | Arr "jsval list"
  | Obj "(string \<times> jsval) list"

text \<open>
  A rejected promise or a thrown exception is a value: \<open>Rejected\<close> is a rejection of
  the transport (with its message), \<open>TypeError\<close> is what the JavaScript runtime throws
  when a property of \<^verbatim>\<open>null\<close> or \<^verbatim>\<open>undefined\<close> is read, when a non-iterable is
  destructured as an array or when a missing method is called.
\<close>

datatype error = Rejected string | TypeError

fun nullish :: "jsval \<Rightarrow> bool" where
  "nullish Null = True"
| "nullish Undefined = True"
| "nullish _ = False"

text \<open>The operand test of \<^verbatim>\<open>!x\<close>.\<close>

fun falsy :: "jsval \<Rightarrow> bool" where
  "falsy Undefined = True"
| "falsy Null = True"
| "falsy (Bool b) = (\<not> b)"
| "falsy (Num n) = (n = 0)"
| "falsy (Str s) = (s = [])"
| "falsy _ = False"

text \<open>Array indices as property names: the decimal numeral of the index.\<close>

definition digit_char :: "nat \<Rightarrow> char" where
  "digit_char d = ''0123456789'' ! d"

fun string_of_nat :: "nat \<Rightarrow> string" where
  "string_of_nat n =
     (if n < 10 then [digit_char n]
      else string_of_nat (n div 10) @ [digit_char (n mod 10)])"

declare string_of_nat.simps [simp del]

text \<open>
  The own enumerable string-keyed properties of a value, as object rest and object
  spread copy them: the fields of an object, the indexed elements of an array, the
  indexed characters of a string, nothing for the other values.
\<close>

fun own_props :: "jsval \<Rightarrow> (string \<times> jsval) list" where
  "own_props (Obj kvs) = kvs"
| "own_props (Arr xs) = zip (map string_of_nat [0..<length xs]) xs"
| "own_props (Str s) = zip (map string_of_nat [0..<length s]) (map (\<lambda>c. Str [c]) s)"
| "own_props _ = []"

text \<open>
  Reading a property of a value that is neither \<^verbatim>\<open>null\<close> nor \<^verbatim>\<open>undefined\<close>. The
  adapter reads the names \<^verbatim>\<open>user\<close>, \<^verbatim>\<open>id\<close>, \<^verbatim>\<open>userId\<close>, \<^verbatim>\<open>sessionToken\<close>,
  \<^verbatim>\<open>session\<close>, \<^verbatim>\<open>sessions\<close>, \<^verbatim>\<open>accounts\<close>, \<^verbatim>\<open>verificationToken\<close> and the index
  \<^verbatim>\<open>0\<close>; none of them is inherited from a prototype, so an absent own property
  reads as \<^verbatim>\<open>undefined\<close>.
\<close>

definition lookup :: "jsval \<Rightarrow> string \<Rightarrow> jsval" where
  "lookup v k = (case map_of (own_props v) k of Some x \<Rightarrow> x | None \<Rightarrow> Undefined)"

text \<open>\<^verbatim>\<open>v.k\<close>: throws on \<^verbatim>\<open>null\<close> and \<^verbatim>\<open>undefined\<close>.\<close>

definition get_prop :: "jsval \<Rightarrow> string \<Rightarrow> error + jsval" where
  "get_prop v k = (if nullish v then Inl TypeError else Inr (lookup v k))"

text \<open>\<^verbatim>\<open>v.k1.k2...\<close>, each step throwing as \<open>get_prop\<close> does.\<close>

fun get_path :: "jsval \<Rightarrow> string list \<Rightarrow> error + jsval" where
  "get_path v [] = Inr v"
| "get_path v (k # ks) =
     (case get_prop v k of Inl e \<Rightarrow> Inl e | Inr x \<Rightarrow> get_path x ks)"

text \<open>\<^verbatim>\<open>v?.k\<close>: \<^verbatim>\<open>undefined\<close> on \<^verbatim>\<open>null\<close> and \<^verbatim>\<open>undefined\<close>.\<close>

definition opt_prop :: "jsval \<Rightarrow> string \<Rightarrow> jsval" where
  "opt_prop v k = (if nullish v then Undefined else lookup v k)"

text \<open>
  \<^verbatim>\<open>const { k, ...rest } = v\<close>: the property \<open>k\<close> and the object of the other own
  properties. Destructuring \<^verbatim>\<open>null\<close> or \<^verbatim>\<open>undefined\<close> throws.
\<close>

definition destructure :: "string \<Rightarrow> jsval \<Rightarrow> error + jsval \<times> (string \<times> jsval) list" where
  "destructure k v =
     (if nullish v then Inl TypeError
      else Inr (lookup v k, AList.delete k (own_props v)))"

text \<open>
  \<^verbatim>\<open>const [x] = v\<close>: the first element of an iterable (\<^verbatim>\<open>undefined\<close> when it has
  none); a value that is not iterable throws.
\<close>

fun first_of :: "jsval \<Rightarrow> error + jsval" where
  "first_of (Arr xs) = Inr (case xs of [] \<Rightarrow> Undefined | x # _ \<Rightarrow> x)"
| "first_of (Str s) = Inr (case s of [] \<Rightarrow> Undefined | c # _ \<Rightarrow> Str [c])"
| "first_of _ = Inl TypeError"

text \<open>\<^verbatim>\<open>xs.map((x) => x.id)\<close>: only an array has the method.\<close>

fun traverse :: "('a \<Rightarrow> error + 'b) \<Rightarrow> 'a list \<Rightarrow> error + 'b list" where
  "traverse f [] = Inr []"
| "traverse f (x # xs) =
     (case f x of
        Inl e \<Rightarrow> Inl e
      | Inr y \<Rightarrow> (case traverse f xs of Inl e \<Rightarrow> Inl e | Inr ys \<Rightarrow> Inr (y # ys)))"

fun ids_of :: "jsval \<Rightarrow> error + jsval" where
  "ids_of (Arr xs) =
     (case traverse (\<lambda>x. get_prop x ''id'') xs of
        Inl e \<Rightarrow> Inl e
      | Inr ys \<Rightarrow> Inr (Arr ys))"
| "ids_of _ = Inl TypeError"

text \<open>\<^verbatim>\<open>v.k.map((x) => x.id)\<close>.\<close>

definition prop_ids :: "jsval \<Rightarrow> string \<Rightarrow> error + jsval" where
  "prop_ids v k = (case get_prop v k of Inl e \<Rightarrow> Inl e | Inr xs \<Rightarrow> ids_of xs)"

section \<open>Configuration of the adapter\<close>

text \<open>
  \<^verbatim>\<open>DgraphAdapterOptions\<close>: the fragment overrides by entity name and the transformers
  by operation name. An absent \<^verbatim>\<open>options\<close>, \<^verbatim>\<open>options.fragments\<close> or
  \<^verbatim>\<open>options.transformers\<close> is the empty map. A transformer is a JavaScript function: it
  returns a value, and it may update in place the object it is handed. \<open>transformers\<close>
  gives the value a transformer returns (it is taken to return normally); \<open>in_place\<close>
  gives the contents it leaves in the object it was handed, and is absent for a
  transformer that leaves that object as it is. The adapter hands an object to a
  transformer and returns that same object in one place, \<^verbatim>\<open>createSession\<close>, which is
  where \<open>in_place\<close> is read; \<open>change\<close> takes a transformer by the value it returns.
\<close>

record options =
  fragments :: "string \<rightharpoonup> string"
  transformers :: "string \<rightharpoonup> (jsval \<Rightarrow> jsval)"
  in_place :: "string \<rightharpoonup> (jsval \<Rightarrow> jsval)"

text \<open>
  What the adapter imports and does not define itself: the transport \<^verbatim>\<open>c.run\<close> of
  \<^verbatim>\<open>./client\<close>, which answers a document and its variables with a value or a
  rejection and may change the backend \<open>'w\<close>; the formatter \<^verbatim>\<open>format.from\<close> of
  \<^verbatim>\<open>./utils\<close>; the default fragments of \<^verbatim>\<open>./graphql/fragments\<close>.
\<close>

record 'w env =
  run :: "'w \<Rightarrow> string \<Rightarrow> jsval \<Rightarrow> (error + jsval) \<times> 'w"
  format_from :: "jsval \<Rightarrow> jsval"
  defaultFragments :: "string \<rightharpoonup> string"

text \<open>\<^verbatim>\<open>options?.transformers?.[func]?.(x) ?? x\<close>\<close>

definition change :: "options \<Rightarrow> string \<Rightarrow> jsval \<Rightarrow> jsval" where
  "change opts func x =
     (case transformers opts func of
        None \<Rightarrow> x
      | Some t \<Rightarrow> (if nullish (t x) then x else t x))"

text \<open>\<^verbatim>\<open>{ ...defaultFragments, ...options?.fragments }\<close>\<close>

definition merged_fragments :: "'w env \<Rightarrow> options \<Rightarrow> (string \<rightharpoonup> string)" where
  "merged_fragments env opts = defaultFragments env ++ fragments opts"

section \<open>The documents\<close>

text \<open>
  Each document is a template literal: a line break, then the lines of the literal,
  separated by line breaks, with the fragment text spliced in where the literal
  interpolates it. An interpolated \<^verbatim>\<open>undefined\<close> prints as that word.
\<close>

definition nl :: string where
  "nl = [CHR 0x0A]"

definition template :: "string list \<Rightarrow> string" where
  "template ls = concat (map (\<lambda>l. nl @ l) ls)"

definition fragment :: "(string \<rightharpoonup> string) \<Rightarrow> string \<Rightarrow> string" where
  "fragment fs name = (case fs name of Some s \<Rightarrow> s | None \<Rightarrow> ''undefined'')"

definition createUser_doc :: "(string \<rightharpoonup> string) \<Rightarrow> string" where
  \<open>createUser_doc fs = template
    [''          mutation ($input: [AddUserInput!]!) {'',
     ''            addUser(input: $input) {'',
     ''              user {'',
     ''                ...UserFragment'',
     ''              }'',
     ''            }'',
     ''          }'',
     ''          '' @ fragment fs ''User'',
     ''        '']\<close>

definition getUser_doc :: "(string \<rightharpoonup> string) \<Rightarrow> string" where
  \<open>getUser_doc fs = template
    [''          query ($id: ID!) {'',
     ''            getUser(id: $id) {'',
     ''              ...UserFragment'',
     ''            }'',
     ''          }'',
     ''          '' @ fragment fs ''User'',
     ''        '']\<close>

definition getUserByEmail_doc :: "(string \<rightharpoonup> string) \<Rightarrow> string" where
  \<open>getUserByEmail_doc fs = template
    [''          query ($email: String = "") {'',
     ''            queryUser(filter: { email: { eq: $email } }) {'',
     ''              ...UserFragment'',
     ''            }'',
     ''          }'',
     ''          '' @ fragment fs ''User'',
     ''        '']\<close>

definition getUserByAccount_doc :: "(string \<rightharpoonup> string) \<Rightarrow> string" where
  \<open>getUserByAccount_doc fs = template
    [''          query ($providerAccountId: String = "", $provider: String = "") {'',
     ''            queryAccount('',
     ''              filter: {'',
     ''                and: {'',
     ''                  providerAccountId: { eq: $providerAccountId }'',
     ''                  provider: { eq: $provider }'',
     ''                }'',
     ''              }'',
     ''            ) {'',
     ''              user {'',
     ''                ...UserFragment'',
     ''              }'',
     ''              id'',
     ''            }'',
     ''          }'',
     ''          '' @ fragment fs ''User'',
     ''        '']\<close>

definition updateUser_doc :: "(string \<rightharpoonup> string) \<Rightarrow> string" where
  \<open>updateUser_doc fs = template
    [''          mutation ($id: [ID!] = "", $input: UserPatch) {'',
     ''            updateUser(input: { filter: { id: $id }, set: $input }) {'',
     ''              user {'',
     ''                ...UserFragment'',
     ''              }'',
     ''            }'',
     ''          }'',
     ''          '' @ fragment fs ''User'',
     ''        '']\<close>

definition deleteUser_doc :: string where
  \<open>deleteUser_doc = template
    [''          mutation ($id: [ID!] = "") {'',
     ''            deleteUser(filter: { id: $id }) {'',
     ''              numUids'',
     ''              user {'',
     ''                accounts {'',
     ''                  id'',
     ''                }'',
     ''                sessions {'',
     ''                  id'',
     ''                }'',
     ''              }'',
     ''            }'',
     ''          }'',
     ''        '']\<close>

definition deleteUser_cascade_doc :: string where
  \<open>deleteUser_cascade_doc = template
    [''          mutation ($accounts: [ID!], $sessions: [ID!]) {'',
     ''            deleteAccount(filter: { id: $accounts }) {'',
     ''              numUids'',
     ''            }'',
     ''            deleteSession(filter: { id: $sessions }) {'',
     ''              numUids'',
     ''            }'',
     ''          }'',
     ''        '']\<close>

definition linkAccount_doc :: "(string \<rightharpoonup> string) \<Rightarrow> string" where
  \<open>linkAccount_doc fs = template
    [''          mutation ($input: [AddAccountInput!]!) {'',
     ''            addAccount(input: $input) {'',
     ''              account {'',
     ''                ...AccountFragment'',
     ''              }'',
     ''            }'',
     ''          }'',
     ''          '' @ fragment fs ''Account'',
     ''        '']\<close>

definition unlinkAccount_doc :: string where
  \<open>unlinkAccount_doc = template
    [''          mutation ($providerAccountId: String = "", $provider: String = "") {'',
     ''            deleteAccount('',
     ''              filter: {'',
     ''                and: {'',
     ''                  providerAccountId: { eq: $providerAccountId }'',
     ''                  provider: { eq: $provider }'',
     ''                }'',
     ''              }'',
     ''            ) {'',
     ''              numUids'',
     ''            }'',
     ''          }'',
     ''        '']\<close>

definition getSessionAndUser_doc :: "(string \<rightharpoonup> string) \<Rightarrow> string" where
  \<open>getSessionAndUser_doc fs = template
    [''          query ($sessionToken: String = "") {'',
     ''            querySession(filter: { sessionToken: { eq: $sessionToken } }) {'',
     ''              ...SessionFragment'',
     ''              user {'',
     ''                ...UserFragment'',
     ''              }'',
     ''            }'',
     ''          }'',
     ''          '' @ fragment fs ''User'',
     ''          '' @ fragment fs ''Session'',
     ''        '']\<close>

definition createSession_doc :: "(string \<rightharpoonup> string) \<Rightarrow> string" where
  \<open>createSession_doc fs = template
    [''          mutation ($input: [AddSessionInput!]!) {'',
     ''            addSession(input: $input) {'',
     ''              session {'',
     ''                ...SessionFragment'',
     ''              }'',
     ''            }'',
     ''          }'',
     ''          '' @ fragment fs ''Session'',
     ''        '']\<close>

definition updateSession_doc :: "(string \<rightharpoonup> string) \<Rightarrow> string" where
  \<open>updateSession_doc fs = template
    [''          mutation ($input: SessionPatch = {}, $sessionToken: String) {'',
     ''            updateSession('',
     ''              input: {'',
     ''                filter: { sessionToken: { eq: $sessionToken } }'',
     ''                set: $input'',
     ''              }'',
     ''            ) {'',
     ''              session {'',
     ''                ...SessionFragment'',
     ''                user {'',
     ''                  id'',
     ''                }'',
     ''              }'',
     ''            }'',
     ''          }'',
     ''          '' @ fragment fs ''Session'',
     ''        '']\<close>

definition deleteSession_doc :: string where
  \<open>deleteSession_doc = template
    [''          mutation ($sessionToken: String = "") {'',
     ''            deleteSession(filter: { sessionToken: { eq: $sessionToken } }) {'',
     ''              numUids'',
     ''            }'',
     ''          }'',
     ''        '']\<close>

definition createVerificationToken_doc :: string where
  \<open>createVerificationToken_doc = template
    [''          mutation ($input: [AddVerificationTokenInput!]!) {'',
     ''            addVerificationToken(input: $input) {'',
     ''              numUids'',
     ''            }'',
     ''          }'',
     ''        '']\<close>

definition useVerificationToken_doc :: "(string \<rightharpoonup> string) \<Rightarrow> string" where
  \<open>useVerificationToken_doc fs = template
    [''          mutation ($token: String = "", $identifier: String = "") {'',
     ''            deleteVerificationToken('',
     ''              filter: {'',
     ''                and: { token: { eq: $token }, identifier: { eq: $identifier } }'',
     ''              }'',
     ''            ) {'',
     ''              verificationToken {'',
     ''                ...VerificationTokenFragment'',
     ''              }'',
     ''            }'',
     ''          }'',
     ''          '' @ fragment fs ''VerificationToken'',
     ''        '']\<close>

section \<open>The operations\<close>

text \<open>
  An operation takes the backend before the call and returns its outcome (the value the
  promise resolves with, or the error it rejects with) and the backend after the call.
  \<^verbatim>\<open>await c.run(...)\<close> rethrows a rejection; no operation has a \<^verbatim>\<open>try\<close>.
\<close>

definition createUser :: "'w env \<Rightarrow> options \<Rightarrow> jsval \<Rightarrow> 'w \<Rightarrow> (error + jsval) \<times> 'w" where
  "createUser env opts input w =
     (case run env w (createUser_doc (merged_fragments env opts))
             (Obj [(''input'', change opts ''createUser'' input)]) of
        (Inl e, w') \<Rightarrow> (Inl e, w')
      | (Inr result, w') \<Rightarrow>
          (case (if nullish result then Inr Undefined
                 else get_prop (lookup result ''user'') ''0'') of
             Inl e \<Rightarrow> (Inl e, w')
           | Inr u \<Rightarrow> (Inr (format_from env u), w')))"

definition getUser :: "'w env \<Rightarrow> options \<Rightarrow> jsval \<Rightarrow> 'w \<Rightarrow> (error + jsval) \<times> 'w" where
  "getUser env opts id' w =
     (case run env w (getUser_doc (merged_fragments env opts))
             (Obj [(''id'', change opts ''getUser'' id')]) of
        (Inl e, w') \<Rightarrow> (Inl e, w')
      | (Inr result, w') \<Rightarrow> (Inr (format_from env result), w'))"

definition getUserByEmail :: "'w env \<Rightarrow> options \<Rightarrow> jsval \<Rightarrow> 'w \<Rightarrow> (error + jsval) \<times> 'w" where
  "getUserByEmail env opts email w =
     (case run env w (getUserByEmail_doc (merged_fragments env opts))
             (Obj [(''email'', change opts ''getUserByEmail'' email)]) of
        (Inl e, w') \<Rightarrow> (Inl e, w')
      | (Inr result, w') \<Rightarrow>
          (case first_of result of
             Inl e \<Rightarrow> (Inl e, w')
           | Inr user \<Rightarrow> (Inr (format_from env user), w')))"

definition getUserByAccount :: "'w env \<Rightarrow> options \<Rightarrow> jsval \<Rightarrow> 'w \<Rightarrow> (error + jsval) \<times> 'w" where
  "getUserByAccount env opts provider_providerAccountId w =
     (case run env w (getUserByAccount_doc (merged_fragments env opts))
             (change opts ''getUserByAccount'' provider_providerAccountId) of
        (Inl e, w') \<Rightarrow> (Inl e, w')
      | (Inr result, w') \<Rightarrow>
          (case first_of result of
             Inl e \<Rightarrow> (Inl e, w')
           | Inr account \<Rightarrow> (Inr (format_from env (opt_prop account ''user'')), w')))"

definition updateUser :: "'w env \<Rightarrow> options \<Rightarrow> jsval \<Rightarrow> 'w \<Rightarrow> (error + jsval) \<times> 'w" where
  "updateUser env opts arg w =
     (case destructure ''id'' arg of
        Inl e \<Rightarrow> (Inl e, w)
      | Inr (id', input) \<Rightarrow>
          (case run env w (updateUser_doc (merged_fragments env opts))
                  (change opts ''updateUser'' (Obj [(''id'', id'), (''input'', Obj input)])) of
             (Inl e, w') \<Rightarrow> (Inl e, w')
           | (Inr result, w') \<Rightarrow>
               (case get_path result [''user'', ''0''] of
                  Inl e \<Rightarrow> (Inl e, w')
                | Inr u \<Rightarrow> (Inr (format_from env u), w'))))"

definition deleteUser :: "'w env \<Rightarrow> options \<Rightarrow> jsval \<Rightarrow> 'w \<Rightarrow> (error + jsval) \<times> 'w" where
  "deleteUser env opts id' w =
     (case run env w deleteUser_doc (Obj [(''id'', change opts ''deleteUser'' id')]) of
        (Inl e, w1) \<Rightarrow> (Inl e, w1)
      | (Inr result, w1) \<Rightarrow>
          (case get_path result [''user'', ''0''] of
             Inl e \<Rightarrow> (Inl e, w1)
           | Inr u \<Rightarrow>
               (let deletedUser = format_from env u in
                (case prop_ids deletedUser ''sessions'' of
                   Inl e \<Rightarrow> (Inl e, w1)
                 | Inr sessions \<Rightarrow>
                     (case prop_ids deletedUser ''accounts'' of
                        Inl e \<Rightarrow> (Inl e, w1)
                      | Inr accounts \<Rightarrow>
                          (case run env w1 deleteUser_cascade_doc
                                  (Obj [(''sessions'', sessions), (''accounts'', accounts)]) of
                             (Inl e, w2) \<Rightarrow> (Inl e, w2)
                           | (Inr _, w2) \<Rightarrow> (Inr deletedUser, w2)))))))"

definition linkAccount :: "'w env \<Rightarrow> options \<Rightarrow> jsval \<Rightarrow> 'w \<Rightarrow> (error + jsval) \<times> 'w" where
  "linkAccount env opts data w =
     (case destructure ''userId'' data of
        Inl e \<Rightarrow> (Inl e, w)
      | Inr (userId, input) \<Rightarrow>
          (case run env w (linkAccount_doc (merged_fragments env opts))
                  (Obj [(''input'',
                         change opts ''linkAccount''
                           (Obj (AList.update ''user'' (Obj [(''id'', userId)]) input)))]) of
             (Inl e, w') \<Rightarrow> (Inl e, w')
           | (Inr _, w') \<Rightarrow> (Inr data, w')))"

definition unlinkAccount :: "'w env \<Rightarrow> options \<Rightarrow> jsval \<Rightarrow> 'w \<Rightarrow> (error + jsval) \<times> 'w" where
  "unlinkAccount env opts provider_providerAccountId w =
     (case run env w unlinkAccount_doc
             (change opts ''unlinkAccount'' provider_providerAccountId) of
        (Inl e, w') \<Rightarrow> (Inl e, w')
      | (Inr _, w') \<Rightarrow> (Inr Undefined, w'))"

definition getSessionAndUser :: "'w env \<Rightarrow> options \<Rightarrow> jsval \<Rightarrow> 'w \<Rightarrow> (error + jsval) \<times> 'w" where
  "getSessionAndUser env opts sessionToken w =
     (case run env w (getSessionAndUser_doc (merged_fragments env opts))
             (Obj [(''sessionToken'', change opts ''getSessionAndUser'' sessionToken)]) of
        (Inl e, w') \<Rightarrow> (Inl e, w')
      | (Inr result, w') \<Rightarrow>
          (case first_of result of
             Inl e \<Rightarrow> (Inl e, w')
           | Inr sessionAndUser \<Rightarrow>
               (if falsy sessionAndUser then (Inr Null, w')
                else
                  (let user = lookup sessionAndUser ''user'';
                       session = Obj (AList.delete ''user'' (own_props sessionAndUser))
                   in (case get_prop user ''id'' of
                         Inl e \<Rightarrow> (Inl e, w')
                       | Inr user_id \<Rightarrow>
                           (Inr (Obj [(''user'', format_from env user),
                                      (''session'',
                                       Obj (AList.update ''userId'' user_id
                                              (own_props (format_from env session))))]),
                            w'))))))"

text \<open>
  \<^verbatim>\<open>createSession\<close> calls its transformer on the caller's object \<^verbatim>\<open>data\<close> and ends with
  \<^verbatim>\<open>return data\<close>: it returns that object, with the contents the transformer has left
  in it.
\<close>

definition createSession :: "'w env \<Rightarrow> options \<Rightarrow> jsval \<Rightarrow> 'w \<Rightarrow> (error + jsval) \<times> 'w" where
  "createSession env opts data w =
     (case destructure ''userId''
             (case transformers opts ''createSession'' of
                Some t \<Rightarrow> t data
              | None \<Rightarrow> data) of
        Inl e \<Rightarrow> (Inl e, w)
      | Inr (userId, input) \<Rightarrow>
          (case run env w (createSession_doc (merged_fragments env opts))
                  (Obj [(''input'',
                         change opts ''createSession''
                           (Obj (AList.update ''user'' (Obj [(''id'', userId)]) input)))]) of
             (Inl e, w') \<Rightarrow> (Inl e, w')
           | (Inr _, w') \<Rightarrow>
               (Inr (case transformers opts ''createSession'' of
                       None \<Rightarrow> data
                     | Some t \<Rightarrow>
                         (case in_place opts ''createSession'' of
                            None \<Rightarrow> data
                          | Some m \<Rightarrow> m data)),
                w')))"

definition updateSession :: "'w env \<Rightarrow> options \<Rightarrow> jsval \<Rightarrow> 'w \<Rightarrow> (error + jsval) \<times> 'w" where
  "updateSession env opts arg w =
     (case destructure ''sessionToken'' arg of
        Inl e \<Rightarrow> (Inl e, w)
      | Inr (sessionToken, input) \<Rightarrow>
          (case run env w (updateSession_doc (merged_fragments env opts))
                  (change opts ''updateSession''
                     (Obj [(''sessionToken'', sessionToken), (''input'', Obj input)])) of
             (Inl e, w') \<Rightarrow> (Inl e, w')
           | (Inr result, w') \<Rightarrow>
               (case get_path result [''session'', ''0''] of
                  Inl e \<Rightarrow> (Inl e, w')
                | Inr r \<Rightarrow>
                    (let session = format_from env r in
                     if falsy (opt_prop (opt_prop session ''user'') ''id'') then (Inr Null, w')
                     else
                       (case get_path session [''user'', ''id''] of
                          Inl e \<Rightarrow> (Inl e, w')
                        | Inr user_id \<Rightarrow>
                            (Inr (Obj (AList.update ''userId'' user_id (own_props session))),
                             w'))))))"

definition deleteSession :: "'w env \<Rightarrow> options \<Rightarrow> jsval \<Rightarrow> 'w \<Rightarrow> (error + jsval) \<times> 'w" where
  "deleteSession env opts sessionToken w =
     (case run env w deleteSession_doc
             (Obj [(''sessionToken'', change opts ''deleteSession'' sessionToken)]) of
        (Inl e, w') \<Rightarrow> (Inl e, w')
      | (Inr _, w') \<Rightarrow> (Inr Undefined, w'))"

definition createVerificationToken ::
    "'w env \<Rightarrow> options \<Rightarrow> jsval \<Rightarrow> 'w \<Rightarrow> (error + jsval) \<times> 'w" where
  "createVerificationToken env opts input w =
     (case run env w createVerificationToken_doc
             (Obj [(''input'', change opts ''createVerificationToken'' input)]) of
        (Inl e, w') \<Rightarrow> (Inl e, w')
      | (Inr result, w') \<Rightarrow> (Inr (format_from env result), w'))"

definition useVerificationToken ::
    "'w env \<Rightarrow> options \<Rightarrow> jsval \<Rightarrow> 'w \<Rightarrow> (error + jsval) \<times> 'w" where
  "useVerificationToken env opts params w =
     (case run env w (useVerificationToken_doc (merged_fragments env opts))
             (change opts ''useVerificationToken'' params) of
        (Inl e, w') \<Rightarrow> (Inl e, w')
      | (Inr result, w') \<Rightarrow>
          (case get_path result [''verificationToken'', ''0''] of
             Inl e \<Rightarrow> (Inl e, w')
           | Inr r \<Rightarrow> (Inr (format_from env r), w')))"


section \<open>The adapter object\<close>

text \<open>
  \<^verbatim>\<open>DgraphAdapter(client, options)\<close> returns the object of the fourteen methods; calling
  a method of it is a \<open>call\<close>.
\<close>

datatype call =
    CreateUser jsval
  | GetUser jsval
  | GetUserByEmail jsval
  | GetUserByAccount jsval
  | UpdateUser jsval
  | DeleteUser jsval
  | LinkAccount jsval
  | UnlinkAccount jsval
  | GetSessionAndUser jsval
  | CreateSession jsval
  | UpdateSession jsval
  | DeleteSession jsval
  | CreateVerificationToken jsval
  | UseVerificationToken jsval

fun DgraphAdapter :: "'w env \<Rightarrow> options \<Rightarrow> call \<Rightarrow> 'w \<Rightarrow> (error + jsval) \<times> 'w" where
  "DgraphAdapter env opts (CreateUser x) = createUser env opts x"
| "DgraphAdapter env opts (GetUser x) = getUser env opts x"
| "DgraphAdapter env opts (GetUserByEmail x) = getUserByEmail env opts x"
| "DgraphAdapter env opts (GetUserByAccount x) = getUserByAccount env opts x"
| "DgraphAdapter env opts (UpdateUser x) = updateUser env opts x"
| "DgraphAdapter env opts (DeleteUser x) = deleteUser env opts x"
| "DgraphAdapter env opts (LinkAccount x) = linkAccount env opts x"
| "DgraphAdapter env opts (UnlinkAccount x) = unlinkAccount env opts x"
| "DgraphAdapter env opts (GetSessionAndUser x) = getSessionAndUser env opts x"
| "DgraphAdapter env opts (CreateSession x) = createSession env opts x"
| "DgraphAdapter env opts (UpdateSession x) = updateSession env opts x"
| "DgraphAdapter env opts (DeleteSession x) = deleteSession env opts x"
| "DgraphAdapter env opts (CreateVerificationToken x) = createVerificationToken env opts x"
| "DgraphAdapter env opts (UseVerificationToken x) = useVerificationToken env opts x"

section \<open>Observing the requests\<close>

text \<open>
  To speak about what an operation sends, the transport is wrapped: the wrapped
  transport answers as the given one does and appends each request (document and
  variables) to a log kept beside the backend.
\<close>

type_synonym request = "string \<times> jsval"

definition recording ::
    "('w \<Rightarrow> string \<Rightarrow> jsval \<Rightarrow> (error + jsval) \<times> 'w) \<Rightarrow>
     'w \<times> request list \<Rightarrow> string \<Rightarrow> jsval \<Rightarrow> (error + jsval) \<times> 'w \<times> request list" where
  "recording r wl doc vars =
     (case r (fst wl) doc vars of (res, w') \<Rightarrow> (res, (w', snd wl @ [(doc, vars)])))"

definition recorded :: "'w env \<Rightarrow> ('w \<times> request list) env" where
  "recorded env =
     \<lparr>run = recording (run env), format_from = format_from env,
      defaultFragments = defaultFragments env\<rparr>"

text \<open>The requests an operation sends, in order, and its outcome.\<close>

definition requests_of ::
    "(('w \<times> request list) env \<Rightarrow> 'w \<times> request list \<Rightarrow> (error + jsval) \<times> 'w \<times> request list) \<Rightarrow>
     'w env \<Rightarrow> 'w \<Rightarrow> request list" where
  "requests_of operation env w = snd (snd (operation (recorded env) (w, [])))"

text \<open>
  A transport that plays back a fixed list of answers, whatever it is asked; a transport
  of this kind stands for the backend in the examples.
\<close>

fun scripted ::
    "(error + jsval) list \<Rightarrow> string \<Rightarrow> jsval \<Rightarrow> (error + jsval) \<times> (error + jsval) list" where
  "scripted [] doc vars = (Inl (Rejected ''no answer''), [])"
| "scripted (r # rs) doc vars = (r, rs)"

section \<open>The formatter and the backend, as the specification describes them\<close>

text \<open>
  Modelled from the spec: \<^verbatim>\<open>format.from\<close> of \<^verbatim>\<open>./utils\<close> is imported by the adapter and
  is not among the sources. The specification of the formatter: it returns \<^verbatim>\<open>null\<close>
  when its input is \<^verbatim>\<open>null\<close> or absent, converts date-like values of a record to dates
  and passes every other field through unchanged. Which strings are date-like is the
  parameter \<open>date_like\<close>.
\<close>

definition spec_format_from :: "(string \<Rightarrow> bool) \<Rightarrow> jsval \<Rightarrow> jsval" where
  "spec_format_from date_like object =
     (if nullish object then Null
      else (case object of
              Obj kvs \<Rightarrow>
                Obj (map (\<lambda>(key, value).
                            (key, case value of
                                    Str s \<Rightarrow> if date_like s then DateV s else value
                                  | _ \<Rightarrow> value)) kvs)
            | _ \<Rightarrow> object))"



section \<open>An example configuration\<close>

definition example_fragments :: "string \<rightharpoonup> string" where
  "example_fragments =
     [''User'' \<mapsto> ''fragment UserFragment on User { id name email emailVerified image }'',
      ''Account'' \<mapsto> ''fragment AccountFragment on Account { id type provider providerAccountId }'',
      ''Session'' \<mapsto> ''fragment SessionFragment on Session { id expires sessionToken }'',
      ''VerificationToken'' \<mapsto>
        ''fragment VerificationTokenFragment on VerificationToken { identifier token expires }'']"

definition example_date_like :: "string \<Rightarrow> bool" where
  "example_date_like s \<longleftrightarrow> length s = 24 \<and> s ! 10 = CHR ''T'' \<and> s ! 23 = CHR ''Z''"

definition example_env :: "((error + jsval) list) env" where
  "example_env =
     \<lparr>run = scripted, format_from = spec_format_from example_date_like,
      defaultFragments = example_fragments\<rparr>"

definition no_options :: options where
  "no_options = \<lparr>fragments = Map.empty, transformers = Map.empty, in_place = Map.empty\<rparr>"

text \<open>
  An example of a transformer: it counts, in the field \<^verbatim>\<open>hops\<close> of the object it is
  given, how many times it has been applied.
\<close>

definition count_hops :: "jsval \<Rightarrow> jsval" where
  "count_hops v =
     Obj (AList.update ''hops''
            (case lookup v ''hops'' of Num n \<Rightarrow> Num (n + 1) | _ \<Rightarrow> Num 1)
            (own_props v))"



section \<open>Properties of the helpers\<close>

lemma run_recorded:
  "run (recorded env) (w, log) doc vars =
     (fst (run env w doc vars), (snd (run env w doc vars), log @ [(doc, vars)]))"
  by (simp add: recorded_def recording_def split: prod.splits)

lemma format_from_recorded [simp]: "format_from (recorded env) = format_from env"
  by (simp add: recorded_def)

lemma merged_fragments_recorded [simp]:
  "merged_fragments (recorded env) opts = merged_fragments env opts"
  by (simp add: merged_fragments_def recorded_def)

lemma string_of_nat_0: "string_of_nat 0 = ''0''"
  by (simp add: string_of_nat.simps [of 0] digit_char_def)

lemma lookup_Obj: "lookup (Obj kvs) k = (case map_of kvs k of Some x \<Rightarrow> x | None \<Rightarrow> Undefined)"
  by (simp add: lookup_def)

lemma lookup_Arr_0: "lookup (Arr xs) ''0'' = (case xs of [] \<Rightarrow> Undefined | x # _ \<Rightarrow> x)"
  by (cases xs) (simp_all add: lookup_def upt_rec [of 0] string_of_nat_0 del: upt_Suc)






lemma change_fragments [simp]: "change (opts\<lparr>fragments := f\<rparr>) = change opts"
  by (simp add: change_def fun_eq_iff)

lemma scripted_ignores_document: "scripted w d v = scripted w d' v"
  by (cases w) simp_all

lemma defaultFragments_recorded [simp]: "defaultFragments (recorded env) = defaultFragments env"
  by (simp add: recorded_def)

section \<open>getUserByEmail\<close>



section \<open>Lookups that find nothing\<close>

text \<open>
  Claim C6. Let the formatter return \<^verbatim>\<open>null\<close> for \<^verbatim>\<open>null\<close> and for \<^verbatim>\<open>undefined\<close>, as
  its contract says. When the backend reports that nothing matched (\<^verbatim>\<open>null\<close> for
  the query by id, the empty list for the queries with a filter), each of \<^verbatim>\<open>getUser\<close>,
  \<^verbatim>\<open>getUserByAccount\<close> and \<^verbatim>\<open>getSessionAndUser\<close> resolves with \<^verbatim>\<open>null\<close>; none of them
  rejects.
\<close>

theorem lookups_resolve_null_when_not_found:
  assumes \<open>format_from env Null = Null\<close> and \<open>format_from env Undefined = Null\<close>
  shows \<open>(run env w (getUser_doc (merged_fragments env opts))
             (Obj [(''id'', change opts ''getUser'' x)]) = (Inr Null, w')
           \<longrightarrow> getUser env opts x w = (Inr Null, w'))
       \<and> (run env w (getUserByAccount_doc (merged_fragments env opts))
             (change opts ''getUserByAccount'' x) = (Inr (Arr []), w')
           \<longrightarrow> getUserByAccount env opts x w = (Inr Null, w'))
       \<and> (run env w (getSessionAndUser_doc (merged_fragments env opts))
             (Obj [(''sessionToken'', change opts ''getSessionAndUser'' x)]) = (Inr (Arr []), w')
           \<longrightarrow> getSessionAndUser env opts x w = (Inr Null, w'))\<close>
  using assms
  by (simp add: getUser_def getUserByAccount_def getSessionAndUser_def opt_prop_def)

theorem lookups_resolve_null_when_not_found_witness:
  \<open>getUser example_env no_options (Str ''u9'') [Inr Null] = (Inr Null, [])
   \<and> getUserByAccount example_env no_options
        (Obj [(''provider'', Str ''github''), (''providerAccountId'', Str ''42'')]) [Inr (Arr [])]
      = (Inr Null, [])
   \<and> getSessionAndUser example_env no_options (Str ''tok'') [Inr (Arr [])] = (Inr Null, [])\<close>
proof -
  have fmt: \<open>format_from example_env Null = Null\<close> \<open>format_from example_env Undefined = Null\<close>
    by (simp_all add: example_env_def spec_format_from_def)
  have r: \<open>run example_env = scripted\<close>
    by (simp add: example_env_def)
  from lookups_resolve_null_when_not_found
         [OF fmt, where w = \<open>[Inr Null]\<close> and w' = \<open>[]\<close> and opts = no_options
            and x = \<open>Str ''u9''\<close>]
  have a: \<open>getUser example_env no_options (Str ''u9'') [Inr Null] = (Inr Null, [])\<close>
    by (simp add: r)
  from lookups_resolve_null_when_not_found
         [OF fmt, where w = \<open>[Inr (Arr [])]\<close> and w' = \<open>[]\<close> and opts = no_options
            and x = \<open>Obj [(''provider'', Str ''github''), (''providerAccountId'', Str ''42'')]\<close>]
  have b: \<open>getUserByAccount example_env no_options
        (Obj [(''provider'', Str ''github''), (''providerAccountId'', Str ''42'')]) [Inr (Arr [])]
      = (Inr Null, [])\<close>
    by (simp add: r)
  from lookups_resolve_null_when_not_found
         [OF fmt, where w = \<open>[Inr (Arr [])]\<close> and w' = \<open>[]\<close> and opts = no_options
            and x = \<open>Str ''tok''\<close>]
  have c: \<open>getSessionAndUser example_env no_options (Str ''tok'') [Inr (Arr [])] = (Inr Null, [])\<close>
    by (simp add: r)
  from a b c show ?thesis by simp
qed

section \<open>getSessionAndUser\<close>

text \<open>
  Claim C9. Let the query of \<^verbatim>\<open>getSessionAndUser\<close> be answered with a list whose first
  element is a matched session record (a truthy value). If the \<^verbatim>\<open>user\<close> field of that
  record is \<^verbatim>\<open>null\<close> or absent, the operation throws a TypeError, because it reads
  \<^verbatim>\<open>user.id\<close> without a test; it does not resolve with \<^verbatim>\<open>null\<close>. It resolves with
  \<^verbatim>\<open>null\<close> only when the answer has no matched record in first place.
\<close>

theorem getSessionAndUser_throws_without_user:
  assumes \<open>run env w (getSessionAndUser_doc (merged_fragments env opts))
             (Obj [(''sessionToken'', change opts ''getSessionAndUser'' sessionToken)])
           = (Inr result, w')\<close>
  shows \<open>(first_of result = Inr r \<and> \<not> falsy r \<and> nullish (lookup r ''user'')
           \<longrightarrow> getSessionAndUser env opts sessionToken w = (Inl TypeError, w'))
       \<and> (getSessionAndUser env opts sessionToken w = (Inr Null, w')
           \<longrightarrow> (\<exists>x. first_of result = Inr x \<and> falsy x))\<close>
  using assms
  by (auto simp add: getSessionAndUser_def get_prop_def Let_def split: sum.splits if_splits)

theorem getSessionAndUser_throws_without_user_witness:
  \<open>getSessionAndUser example_env no_options (Str ''tok'')
      [Inr (Arr [Obj [(''id'', Str ''s1''), (''sessionToken'', Str ''tok''), (''user'', Null)]])]
     = (Inl TypeError, [])
   \<and> getSessionAndUser example_env no_options (Str ''tok'')
      [Inr (Arr [Obj [(''id'', Str ''s1''), (''sessionToken'', Str ''tok'')]])]
     = (Inl TypeError, [])
   \<and> (getSessionAndUser example_env no_options (Str ''tok'') [Inr (Arr [])] = (Inr Null, [])
      \<and> (\<exists>x. first_of (Arr []) = Inr x \<and> falsy x))\<close>
proof -
  have r: \<open>run example_env = scripted\<close>
    by (simp add: example_env_def)
  from getSessionAndUser_throws_without_user
         [where env = example_env and opts = no_options and sessionToken = \<open>Str ''tok''\<close>
            and w = \<open>[Inr (Arr [Obj [(''id'', Str ''s1''), (''sessionToken'', Str ''tok''),
                                     (''user'', Null)]])]\<close>
            and w' = \<open>[]\<close>
            and r = \<open>Obj [(''id'', Str ''s1''), (''sessionToken'', Str ''tok''), (''user'', Null)]\<close>]
  have a: \<open>getSessionAndUser example_env no_options (Str ''tok'')
      [Inr (Arr [Obj [(''id'', Str ''s1''), (''sessionToken'', Str ''tok''), (''user'', Null)]])]
     = (Inl TypeError, [])\<close>
    by (simp add: r lookup_def)
  from getSessionAndUser_throws_without_user
         [where env = example_env and opts = no_options and sessionToken = \<open>Str ''tok''\<close>
            and w = \<open>[Inr (Arr [Obj [(''id'', Str ''s1''), (''sessionToken'', Str ''tok'')]])]\<close>
            and w' = \<open>[]\<close>
            and r = \<open>Obj [(''id'', Str ''s1''), (''sessionToken'', Str ''tok'')]\<close>]
  have b: \<open>getSessionAndUser example_env no_options (Str ''tok'')
      [Inr (Arr [Obj [(''id'', Str ''s1''), (''sessionToken'', Str ''tok'')]])]
     = (Inl TypeError, [])\<close>
    by (simp add: r lookup_def)
  have c: \<open>getSessionAndUser example_env no_options (Str ''tok'') [Inr (Arr [])] = (Inr Null, [])\<close>
    by (simp add: getSessionAndUser_def r)
  from getSessionAndUser_throws_without_user
         [where env = example_env and opts = no_options and sessionToken = \<open>Str ''tok''\<close>
            and w = \<open>[Inr (Arr [])]\<close> and w' = \<open>[]\<close> and result = \<open>Arr []\<close>]
  have d: \<open>\<exists>x. first_of (Arr []) = Inr x \<and> falsy x\<close>
    using c by (simp add: r)
  from a b c d show ?thesis by blast
qed

section \<open>updateSession\<close>

text \<open>
  Claim C4. Whatever the backend and the formatter do, a resolved \<^verbatim>\<open>updateSession\<close>
  resolves either with \<^verbatim>\<open>null\<close> or with an object whose \<^verbatim>\<open>userId\<close> is a truthy value:
  never with a session that lacks \<^verbatim>\<open>userId\<close>. Let the answer carry the updated
  record \<open>r\<close> as \<^verbatim>\<open>result.session[0]\<close>, and let the formatter leave the id of the
  joined user of \<open>r\<close> as it is. If \<open>r\<close> has no user relation with an id (\<^verbatim>\<open>r?.user?.id\<close>
  is falsy), the operation resolves with \<^verbatim>\<open>null\<close>; otherwise it resolves with the
  formatted session, \<^verbatim>\<open>userId\<close> set to the id of the joined user.
\<close>

theorem updateSession_null_or_userId:
  \<open>(\<forall>v w'. updateSession env opts arg w = (Inr v, w')
        \<longrightarrow> v = Null \<or> \<not> falsy (lookup v ''userId''))
   \<and> (\<not> nullish arg
       \<and> run env w (updateSession_doc (merged_fragments env opts))
            (change opts ''updateSession''
               (Obj [(''sessionToken'', lookup arg ''sessionToken''),
                     (''input'', Obj (AList.delete ''sessionToken'' (own_props arg)))]))
          = (Inr result, w1)
       \<and> get_path result [''session'', ''0''] = Inr r
       \<and> opt_prop (opt_prop (format_from env r) ''user'') ''id''
          = opt_prop (opt_prop r ''user'') ''id''
       \<longrightarrow> updateSession env opts arg w =
             (if falsy (opt_prop (opt_prop r ''user'') ''id'') then (Inr Null, w1)
              else (Inr (Obj (AList.update ''userId'' (opt_prop (opt_prop r ''user'') ''id'')
                                (own_props (format_from env r)))), w1)))\<close>
proof (intro conjI allI impI)
  fix v w'
  assume \<open>updateSession env opts arg w = (Inr v, w')\<close>
  then show \<open>v = Null \<or> \<not> falsy (lookup v ''userId'')\<close>
    by (auto simp add: updateSession_def Let_def get_prop_def opt_prop_def lookup_def
                       update_conv'
             split: sum.splits prod.splits if_splits)
next
  assume a: \<open>\<not> nullish arg
       \<and> run env w (updateSession_doc (merged_fragments env opts))
            (change opts ''updateSession''
               (Obj [(''sessionToken'', lookup arg ''sessionToken''),
                     (''input'', Obj (AList.delete ''sessionToken'' (own_props arg)))]))
          = (Inr result, w1)
       \<and> get_path result [''session'', ''0''] = Inr r
       \<and> opt_prop (opt_prop (format_from env r) ''user'') ''id''
          = opt_prop (opt_prop r ''user'') ''id''\<close>
  have t: \<open>\<not> falsy (opt_prop (opt_prop s ''user'') ''id'') \<Longrightarrow>
        get_path s [''user'', ''id''] = Inr (opt_prop (opt_prop s ''user'') ''id'')\<close> for s
    by (auto simp add: get_prop_def opt_prop_def split: if_splits)
  from a t [of \<open>format_from env r\<close>] show \<open>updateSession env opts arg w =
             (if falsy (opt_prop (opt_prop r ''user'') ''id'') then (Inr Null, w1)
              else (Inr (Obj (AList.update ''userId'' (opt_prop (opt_prop r ''user'') ''id'')
                                (own_props (format_from env r)))), w1))\<close>
    by (simp add: updateSession_def destructure_def Let_def)
qed

theorem updateSession_null_or_userId_witness:
  \<open>updateSession example_env no_options
      (Obj [(''sessionToken'', Str ''tok''), (''expires'', Str ''soon'')])
      [Inr (Obj [(''session'', Arr [Obj [(''id'', Str ''s1''), (''sessionToken'', Str ''tok'')]])])]
     = (Inr Null, [])
   \<and> updateSession example_env no_options
      (Obj [(''sessionToken'', Str ''tok''), (''expires'', Str ''soon'')])
      [Inr (Obj [(''session'', Arr [Obj [(''id'', Str ''s1''), (''sessionToken'', Str ''tok''),
                                        (''user'', Obj [(''id'', Str ''u1'')])]])])]
     = (Inr (Obj [(''id'', Str ''s1''), (''sessionToken'', Str ''tok''),
                  (''user'', Obj [(''id'', Str ''u1'')]), (''userId'', Str ''u1'')]), [])
   \<and> \<not> falsy (lookup (Obj [(''id'', Str ''s1''), (''sessionToken'', Str ''tok''),
                  (''user'', Obj [(''id'', Str ''u1'')]), (''userId'', Str ''u1'')]) ''userId'')\<close>
proof -
  have r: \<open>run example_env = scripted\<close>
    by (simp add: example_env_def)
  have f: \<open>format_from example_env = spec_format_from example_date_like\<close>
    by (simp add: example_env_def)
  note ev = r f spec_format_from_def example_date_like_def get_prop_def opt_prop_def
    lookup_Obj lookup_Arr_0
  from updateSession_null_or_userId
         [where env = example_env and opts = no_options
            and arg = \<open>Obj [(''sessionToken'', Str ''tok''), (''expires'', Str ''soon'')]\<close>
            and w = \<open>[Inr (Obj [(''session'',
                        Arr [Obj [(''id'', Str ''s1''), (''sessionToken'', Str ''tok'')]])])]\<close>
            and ?w1.0 = \<open>[]\<close>
            and result = \<open>Obj [(''session'',
                        Arr [Obj [(''id'', Str ''s1''), (''sessionToken'', Str ''tok'')]])]\<close>
            and r = \<open>Obj [(''id'', Str ''s1''), (''sessionToken'', Str ''tok'')]\<close>]
  have a: \<open>updateSession example_env no_options
      (Obj [(''sessionToken'', Str ''tok''), (''expires'', Str ''soon'')])
      [Inr (Obj [(''session'', Arr [Obj [(''id'', Str ''s1''), (''sessionToken'', Str ''tok'')]])])]
     = (Inr Null, [])\<close>
    by (simp add: ev)
  from updateSession_null_or_userId
         [where env = example_env and opts = no_options
            and arg = \<open>Obj [(''sessionToken'', Str ''tok''), (''expires'', Str ''soon'')]\<close>
            and w = \<open>[Inr (Obj [(''session'',
                        Arr [Obj [(''id'', Str ''s1''), (''sessionToken'', Str ''tok''),
                                  (''user'', Obj [(''id'', Str ''u1'')])]])])]\<close>
            and ?w1.0 = \<open>[]\<close>
            and result = \<open>Obj [(''session'',
                        Arr [Obj [(''id'', Str ''s1''), (''sessionToken'', Str ''tok''),
                                  (''user'', Obj [(''id'', Str ''u1'')])]])]\<close>
            and r = \<open>Obj [(''id'', Str ''s1''), (''sessionToken'', Str ''tok''),
                           (''user'', Obj [(''id'', Str ''u1'')])]\<close>]
  have b: \<open>updateSession example_env no_options
      (Obj [(''sessionToken'', Str ''tok''), (''expires'', Str ''soon'')])
      [Inr (Obj [(''session'', Arr [Obj [(''id'', Str ''s1''), (''sessionToken'', Str ''tok''),
                                        (''user'', Obj [(''id'', Str ''u1'')])]])])]
     = (Inr (Obj [(''id'', Str ''s1''), (''sessionToken'', Str ''tok''),
                  (''user'', Obj [(''id'', Str ''u1'')]), (''userId'', Str ''u1'')]), [])\<close>
    by (simp add: ev)
  from updateSession_null_or_userId
         [where env = example_env and opts = no_options
            and arg = \<open>Obj [(''sessionToken'', Str ''tok''), (''expires'', Str ''soon'')]\<close>
            and w = \<open>[Inr (Obj [(''session'',
                        Arr [Obj [(''id'', Str ''s1''), (''sessionToken'', Str ''tok''),
                                  (''user'', Obj [(''id'', Str ''u1'')])]])])]\<close>] b
  have c: \<open>\<not> falsy (lookup (Obj [(''id'', Str ''s1''), (''sessionToken'', Str ''tok''),
                  (''user'', Obj [(''id'', Str ''u1'')]), (''userId'', Str ''u1'')]) ''userId'')\<close>
    by blast
  from a b c show ?thesis by blast
qed

section \<open>linkAccount\<close>



section \<open>createSession\<close>

text \<open>
  Claim C10. With a transformer \<open>t\<close> configured for \<^verbatim>\<open>createSession\<close>, the operation
  applies it twice before it sends: first to the whole input, to split \<^verbatim>\<open>userId\<close>
  from the other fields of \<open>t data\<close>; then, through \<open>change\<close>, to the payload rebuilt
  from those fields with the relation \<^verbatim>\<open>user: { id: userId }\<close>. The \<^verbatim>\<open>input\<close> that is sent
  is \<open>t\<close> of that payload (the payload itself where \<open>t\<close> returns \<^verbatim>\<open>null\<close> or
  \<^verbatim>\<open>undefined\<close>, as \<open>change\<close> has it).
\<close>

theorem createSession_applies_transformer_twice:
  assumes \<open>transformers opts ''createSession'' = Some t\<close>
    and \<open>\<not> nullish (t data)\<close>
    and \<open>payload = Obj (AList.update ''user'' (Obj [(''id'', lookup (t data) ''userId'')])
                         (AList.delete ''userId'' (own_props (t data))))\<close>
  shows \<open>requests_of (\<lambda>e. createSession e opts data) env w =
           [(createSession_doc (merged_fragments env opts),
             Obj [(''input'', if nullish (t payload) then payload else t payload)])]\<close>
  using assms
  by (simp add: requests_of_def createSession_def destructure_def run_recorded change_def
           split: prod.splits sum.splits)

theorem createSession_applies_transformer_twice_witness:
  \<open>requests_of (\<lambda>e. createSession e
        (no_options\<lparr>transformers := [''createSession'' \<mapsto> count_hops]\<rparr>)
        (Obj [(''sessionToken'', Str ''tok''), (''userId'', Str ''u1''),
              (''expires'', Str ''soon'')]))
      example_env [Inr Null]
     = [(createSession_doc (merged_fragments example_env
            (no_options\<lparr>transformers := [''createSession'' \<mapsto> count_hops]\<rparr>)),
         Obj [(''input'',
               Obj [(''sessionToken'', Str ''tok''), (''expires'', Str ''soon''),
                    (''hops'', Num 2), (''user'', Obj [(''id'', Str ''u1'')])])])]\<close>
proof -
  have t: \<open>transformers (no_options\<lparr>transformers := [''createSession'' \<mapsto> count_hops]\<rparr>)
             ''createSession'' = Some count_hops\<close>
    by simp
  have n: \<open>\<not> nullish (count_hops (Obj [(''sessionToken'', Str ''tok''),
              (''userId'', Str ''u1''), (''expires'', Str ''soon'')]))\<close>
    by (simp add: count_hops_def)
  have p: \<open>Obj [(''sessionToken'', Str ''tok''), (''expires'', Str ''soon''),
                (''hops'', Num 1), (''user'', Obj [(''id'', Str ''u1'')])]
      = Obj (AList.update ''user''
               (Obj [(''id'', lookup (count_hops (Obj [(''sessionToken'', Str ''tok''),
                        (''userId'', Str ''u1''), (''expires'', Str ''soon'')])) ''userId'')])
               (AList.delete ''userId''
                  (own_props (count_hops (Obj [(''sessionToken'', Str ''tok''),
                        (''userId'', Str ''u1''), (''expires'', Str ''soon'')])))))\<close>
    by (simp add: count_hops_def lookup_Obj)
  from createSession_applies_transformer_twice [OF t n p, where env = example_env
         and w = \<open>[Inr Null]\<close>]
  show ?thesis
    by (simp add: count_hops_def lookup_Obj)
qed




section \<open>deleteUser\<close>




section \<open>useVerificationToken\<close>



section \<open>Fragment overrides\<close>

text \<open>
  Claim C8. The fragments of the options enter an operation only as the text spliced
  into its documents. Hold the answers of the backend fixed, that is, let the transport
  answer by the variables of a request and not by the text of its document. Then, for
  every operation of the adapter and every argument, replacing the fragment overrides
  of the options by any others changes neither the outcome of the operation (the
  normalisation of the answers is the same), nor the backend it leaves, nor the
  variables of the requests it sends (the transformers are applied to the same inputs
  with the same results); only the documents may differ.
\<close>

theorem fragment_override_changes_documents_only:
  assumes \<open>\<forall>w d d' v. run env w d v = run env w d' v\<close>
  shows \<open>fst (DgraphAdapter (recorded env) (opts\<lparr>fragments := f\<rparr>) c (w, []))
           = fst (DgraphAdapter (recorded env) opts c (w, []))
       \<and> fst (snd (DgraphAdapter (recorded env) (opts\<lparr>fragments := f\<rparr>) c (w, [])))
           = fst (snd (DgraphAdapter (recorded env) opts c (w, [])))
       \<and> map snd (snd (snd (DgraphAdapter (recorded env) (opts\<lparr>fragments := f\<rparr>) c (w, []))))
           = map snd (snd (snd (DgraphAdapter (recorded env) opts c (w, []))))\<close>
proof -
  define ans where \<open>ans = (\<lambda>w v. run env w [] v)\<close>
  have R: \<open>run env w d v = ans w v\<close> for w d v
    using assms by (simp add: ans_def)
  note step = run_recorded R
  show ?thesis
  proof (cases c)
    case (CreateUser x)
    then show ?thesis
      by (simp add: createUser_def step split: prod.splits sum.splits)
  next
    case (GetUser x)
    then show ?thesis
      by (simp add: getUser_def step split: prod.splits sum.splits)
  next
    case (GetUserByEmail x)
    then show ?thesis
      by (simp add: getUserByEmail_def step split: prod.splits sum.splits)
  next
    case (GetUserByAccount x)
    then show ?thesis
      by (simp add: getUserByAccount_def step split: prod.splits sum.splits)
  next
    case (UpdateUser x)
    then show ?thesis
      by (simp add: updateUser_def step split: prod.splits sum.splits)
  next
    case (DeleteUser x)
    then show ?thesis
      by (simp add: deleteUser_def step Let_def split: prod.splits sum.splits)
  next
    case (LinkAccount x)
    then show ?thesis
      by (simp add: linkAccount_def step split: prod.splits sum.splits)
  next
    case (UnlinkAccount x)
    then show ?thesis
      by (simp add: unlinkAccount_def step split: prod.splits sum.splits)
  next
    case (GetSessionAndUser x)
    then show ?thesis
      by (simp add: getSessionAndUser_def step Let_def split: prod.splits sum.splits)
  next
    case (CreateSession x)
    then show ?thesis
      by (simp add: createSession_def step split: prod.splits sum.splits option.splits)
  next
    case (UpdateSession x)
    then show ?thesis
      by (simp add: updateSession_def step Let_def split: prod.splits sum.splits)
  next
    case (DeleteSession x)
    then show ?thesis
      by (simp add: deleteSession_def step split: prod.splits sum.splits)
  next
    case (CreateVerificationToken x)
    then show ?thesis
      by (simp add: createVerificationToken_def step split: prod.splits sum.splits)
  next
    case (UseVerificationToken x)
    then show ?thesis
      by (simp add: useVerificationToken_def step split: prod.splits sum.splits)
  qed
qed

theorem fragment_override_changes_documents_only_witness:
  \<open>fst (DgraphAdapter (recorded example_env)
          (no_options\<lparr>fragments := [''User'' \<mapsto> ''fragment UserFragment on User { id }'']\<rparr>)
          (GetUser (Str ''u1'')) ([Inr (Obj [(''id'', Str ''u1'')])], []))
     = fst (DgraphAdapter (recorded example_env) no_options
          (GetUser (Str ''u1'')) ([Inr (Obj [(''id'', Str ''u1'')])], []))
   \<and> fst (snd (DgraphAdapter (recorded example_env)
          (no_options\<lparr>fragments := [''User'' \<mapsto> ''fragment UserFragment on User { id }'']\<rparr>)
          (GetUser (Str ''u1'')) ([Inr (Obj [(''id'', Str ''u1'')])], [])))
     = fst (snd (DgraphAdapter (recorded example_env) no_options
          (GetUser (Str ''u1'')) ([Inr (Obj [(''id'', Str ''u1'')])], [])))
   \<and> map snd (snd (snd (DgraphAdapter (recorded example_env)
          (no_options\<lparr>fragments := [''User'' \<mapsto> ''fragment UserFragment on User { id }'']\<rparr>)
          (GetUser (Str ''u1'')) ([Inr (Obj [(''id'', Str ''u1'')])], []))))
     = map snd (snd (snd (DgraphAdapter (recorded example_env) no_options
          (GetUser (Str ''u1'')) ([Inr (Obj [(''id'', Str ''u1'')])], []))))
   \<and> map fst (snd (snd (DgraphAdapter (recorded example_env)
          (no_options\<lparr>fragments := [''User'' \<mapsto> ''fragment UserFragment on User { id }'']\<rparr>)
          (GetUser (Str ''u1'')) ([Inr (Obj [(''id'', Str ''u1'')])], []))))
     \<noteq> map fst (snd (snd (DgraphAdapter (recorded example_env) no_options
          (GetUser (Str ''u1'')) ([Inr (Obj [(''id'', Str ''u1'')])], []))))\<close>
proof -
  have blind: \<open>\<forall>w d d' v. run example_env w d v = run example_env w d' v\<close>
    using scripted_ignores_document by (simp add: example_env_def)
  have documents: \<open>map fst (snd (snd (DgraphAdapter (recorded example_env)
          (no_options\<lparr>fragments := [''User'' \<mapsto> ''fragment UserFragment on User { id }'']\<rparr>)
          (GetUser (Str ''u1'')) ([Inr (Obj [(''id'', Str ''u1'')])], []))))
     \<noteq> map fst (snd (snd (DgraphAdapter (recorded example_env) no_options
          (GetUser (Str ''u1'')) ([Inr (Obj [(''id'', Str ''u1'')])], []))))\<close>
    by (simp add: getUser_def run_recorded example_env_def getUser_doc_def template_def
          fragment_def merged_fragments_def example_fragments_def no_options_def)
  from fragment_override_changes_documents_only [OF blind] documents
  show ?thesis
    by blast
qed

end
